theory Spec2Isabelle
  imports Complex_Main
begin

section \<open>JavaScript numbers\<close>

text \<open>
  A \<open>number\<close> is an IEEE 754 double: \<open>NaN\<close>, an infinity, or a finite value, which is a
  rational number. The two zeros are one value here (the examples cannot tell them
  apart: they compare, add and print alike). A binding the TypeScript source declares as
  \<open>number\<close> can also hold \<open>undefined\<close> at run time (an optional property that was
  omitted), so \<open>Undefined\<close> is a value of the type. Not every rational is a double;
  what is stated for every \<open>Num a\<close> holds in particular for the doubles, and every sum
  the examples compute is rounded to one.
\<close>

datatype jsnum = Undefined | NaN | PosInf | NegInf | Num rat

text \<open>
  Rounding a rational to the nearest double, ties to the even significand: \<open>binade x\<close>
  is the exponent \<open>e\<close> with \<open>2 ^ e \<le> |x| < 2 ^ (e + 1)\<close>, the doubles near \<open>x\<close> are
  the multiples of 2 to the power \<open>max e (-1022) - 52\<close> (53 significant bits, subnormal
  below \<open>2 ^ (-1022)\<close>), and a result of magnitude \<open>2 ^ 1024\<close> or more is an infinity.
\<close>

definition binade :: "rat \<Rightarrow> int" where
  "binade x = \<lfloor>log 2 (of_rat \<bar>x\<bar>)\<rfloor>"

definition round_half_even :: "rat \<Rightarrow> int" where
  "round_half_even y =
     (let f = \<lfloor>y\<rfloor>; d = y - of_int f
      in if d < 1 / 2 then f else if 1 / 2 < d then f + 1 else if even f then f else f + 1)"

definition round_double :: "rat \<Rightarrow> jsnum" where
  "round_double x =
     (if x = 0 then Num 0
      else let u = 2 powi (max (binade x) (- 1022) - 52);
               r = u * of_int (round_half_even (x / u))
           in if 2 ^ 1024 \<le> r then PosInf
              else if r \<le> - (2 ^ 1024) then NegInf
              else Num r)"

text \<open>
  \<open>v + n\<close> for a numeric literal \<open>n\<close>: the exact sum, rounded. \<open>undefined + 1\<close> and
  \<open>NaN + 1\<close> are \<open>NaN\<close>, an infinity stays what it is.
\<close>

fun js_add :: "jsnum \<Rightarrow> rat \<Rightarrow> jsnum" where
  "js_add (Num a) n = round_double (a + n)"
| "js_add PosInf n = PosInf"
| "js_add NegInf n = NegInf"
| "js_add Undefined n = NaN"
| "js_add NaN n = NaN"

text \<open>\<open>v > n\<close>: every comparison with \<open>NaN\<close> (and so with \<open>undefined\<close>) is false.\<close>

fun js_gt :: "jsnum \<Rightarrow> rat \<Rightarrow> bool" where
  "js_gt (Num a) n = (a > n)"
| "js_gt PosInf n = True"
| "js_gt NegInf n = False"
| "js_gt Undefined n = False"
| "js_gt NaN n = False"

function string_of_nat :: "nat \<Rightarrow> string" where
  "string_of_nat n =
     (if n < 10 then [''0123456789'' ! n]
      else string_of_nat (n div 10) @ [''0123456789'' ! (n mod 10)])"
  by pat_completeness auto
termination
  by (relation "measure id") auto

definition string_of_int :: "int \<Rightarrow> string" where
  "string_of_int i =
     (if i < 0 then ''-'' @ string_of_nat (nat (- i)) else string_of_nat (nat i))"

text \<open>
  The conversion a template literal or a text child applies to a number. An integer of
  magnitude up to \<open>2 ^ 53\<close> prints as its decimal digits. For the other finite numbers
  (fractions, larger magnitudes) JavaScript prints the shortest digits that read back as
  the same double, in exponent form from \<open>10 ^ 21\<close> on; that conversion is the parameter
  \<open>conv\<close>, about which nothing is assumed.
\<close>

fun js_to_string :: "(rat \<Rightarrow> string) \<Rightarrow> jsnum \<Rightarrow> string" where
  "js_to_string conv (Num a) =
     (if of_int \<lfloor>a\<rfloor> = a \<and> \<bar>a\<bar> \<le> 2 ^ 53 then string_of_int \<lfloor>a\<rfloor> else conv a)"
| "js_to_string conv PosInf = ''Infinity''"
| "js_to_string conv NegInf = ''-Infinity''"
| "js_to_string conv Undefined = ''undefined''"
| "js_to_string conv NaN = ''NaN''"

text \<open>
  A destructuring default (\<open>{casesSolvedSoFar = 0}\<close>) applies when the property is
  \<open>undefined\<close>, which is also what an omitted property reads as.
\<close>

definition js_default :: "jsnum \<Rightarrow> jsnum \<Rightarrow> jsnum" where
  "js_default v d = (if v = Undefined then d else v)"

text \<open>
  An optional \<open>boolean\<close> is a \<open>bool option\<close>, \<open>None\<close> being \<open>undefined\<close>.
  \<open>!v\<close> negates the truthiness of \<open>v\<close>, and \<open>undefined\<close> is falsy.
\<close>

definition js_truthy :: "bool option \<Rightarrow> bool" where
  "js_truthy v = (case v of None \<Rightarrow> False | Some b \<Rightarrow> b)"

definition js_not :: "bool option \<Rightarrow> bool option" where
  "js_not v = Some (\<not> js_truthy v)"


section \<open>Element descriptions\<close>

text \<open>
  A text keeps the structure of the expression that produced it: \<open>Lit\<close> is text the
  source writes literally (JSX text, the fixed parts of a template literal, a string
  literal chosen by a conditional expression), \<open>Subst\<close> is a string of props or state,
  \<open>SubstNum\<close> a number of props or state, which is converted to text where it is shown.
  The string the framework receives is \<open>text_of\<close>.
\<close>

datatype piece = Lit string | Subst string | SubstNum jsnum

fun piece_text :: "(rat \<Rightarrow> string) \<Rightarrow> piece \<Rightarrow> string" where
  "piece_text conv (Lit s) = s"
| "piece_text conv (Subst s) = s"
| "piece_text conv (SubstNum v) = js_to_string conv v"

definition text_of :: "(rat \<Rightarrow> string) \<Rightarrow> piece list \<Rightarrow> string" where
  "text_of conv ps = concat (map (piece_text conv) ps)"

text \<open>The value of an attribute or of a prop handed to a child component.\<close>

datatype aval =
    ALit string
  | AStr string
  | ANum jsnum
  | AStrs "string list"

text \<open>
  An element description: a text child, an object placed as a child, a host element
  (tag, attributes, event handlers, children), a fragment, or a component element
  (the component's name, its data props and its function-valued props). \<open>'h\<close> is the
  type of the functions an element carries.
\<close>

datatype 'h element =
    Text "piece list"
  | ObjectChild "(string \<times> aval) list"
  | Host string "(string \<times> aval) list" "(string \<times> 'h) list" "'h element list"
  | Fragment "'h element list"
  | Comp string "(string \<times> aval) list" "(string \<times> 'h) list"

text \<open>The texts of a description, in document order.\<close>

fun texts :: "(rat \<Rightarrow> string) \<Rightarrow> 'h element \<Rightarrow> string list" where
  "texts conv (Text ps) = [text_of conv ps]"
| "texts conv (ObjectChild kv) = []"
| "texts conv (Host tag attrs hs cs) = concat (map (texts conv) cs)"
| "texts conv (Fragment cs) = concat (map (texts conv) cs)"
| "texts conv (Comp nm props fs) = []"

text \<open>The pieces of the texts, in document order.\<close>

fun pieces :: "'h element \<Rightarrow> piece list list" where
  "pieces (Text ps) = [ps]"
| "pieces (ObjectChild kv) = []"
| "pieces (Host tag attrs hs cs) = concat (map pieces cs)"
| "pieces (Fragment cs) = concat (map pieces cs)"
| "pieces (Comp nm props fs) = []"

text \<open>The \<open>onClick\<close> handlers of a description, in document order.\<close>

fun handlers :: "'h element \<Rightarrow> 'h list" where
  "handlers (Text ps) = []"
| "handlers (ObjectChild kv) = []"
| "handlers (Host tag attrs hs cs) =
     map snd (filter (\<lambda>h. fst h = ''onClick'') hs) @ concat (map handlers cs)"
| "handlers (Fragment cs) = concat (map handlers cs)"
| "handlers (Comp nm props fs) = []"

text \<open>The names of the components a description refers to, in the order they are evaluated.\<close>

fun comp_names :: "'h element \<Rightarrow> string list" where
  "comp_names (Text ps) = []"
| "comp_names (ObjectChild kv) = []"
| "comp_names (Host tag attrs hs cs) = concat (map comp_names cs)"
| "comp_names (Fragment cs) = concat (map comp_names cs)"
| "comp_names (Comp nm props fs) = [nm]"

text \<open>The markup of a description: the description without the functions it carries.\<close>

definition markup :: "'h element \<Rightarrow> unit element" where
  "markup e = map_element (\<lambda>_. ()) e"

text \<open>
  The literal skeleton of a description: the markup with every value that was converted
  from props or state replaced by a hole. Two descriptions with the same skeleton differ
  only in the values that were substituted, not in which literal fragments were chosen.
\<close>

fun hole_piece :: "piece \<Rightarrow> piece" where
  "hole_piece (Lit s) = Lit s"
| "hole_piece (Subst s) = Subst []"
| "hole_piece (SubstNum v) = Subst []"

fun hole_aval :: "aval \<Rightarrow> aval" where
  "hole_aval (ALit s) = ALit s"
| "hole_aval (AStr s) = AStr []"
| "hole_aval (ANum v) = AStr []"
| "hole_aval (AStrs xs) = AStr []"

definition hole_attrs :: "(string \<times> aval) list \<Rightarrow> (string \<times> aval) list" where
  "hole_attrs kv = map (\<lambda>a. (fst a, hole_aval (snd a))) kv"

definition hole_handlers :: "(string \<times> 'h) list \<Rightarrow> (string \<times> unit) list" where
  "hole_handlers hs = map (\<lambda>h. (fst h, ())) hs"

fun skeleton :: "'h element \<Rightarrow> unit element" where
  "skeleton (Text ps) = Text (map hole_piece ps)"
| "skeleton (ObjectChild kv) = ObjectChild (hole_attrs kv)"
| "skeleton (Host tag attrs hs cs) =
     Host tag (hole_attrs attrs) (hole_handlers hs) (map skeleton cs)"
| "skeleton (Fragment cs) = Fragment (map skeleton cs)"
| "skeleton (Comp nm props fs) = Comp nm (hole_attrs props) (hole_handlers fs)"


section \<open>Names and errors\<close>

datatype error = TargetContainerIsNotADOMElement | ReferenceError string

text \<open>
  A JSX element whose tag is a component name evaluates that name. The name resolves
  when the file declares (or imports) it or the host defines a global of that name;
  otherwise evaluating it raises a \<open>ReferenceError\<close>, and the first such name in
  evaluation order is the one reported.
\<close>

definition evaluate_jsx :: "string list \<Rightarrow> string list \<Rightarrow> 'h element \<Rightarrow> error + 'h element" where
  "evaluate_jsx declared globals e =
     (case find (\<lambda>nm. nm \<notin> set declared \<and> nm \<notin> set globals) (comp_names e) of
        Some nm \<Rightarrow> Inl (ReferenceError nm)
      | None \<Rightarrow> Inr e)"


section \<open>The framework's state and effect interface\<close>

text \<open>
  What an event handler does to the state of its component. \<open>Update f\<close> is a call of a
  state-update function of the framework, asking for the state to become \<open>f\<close> of the
  current state: \<open>set_to v\<close> is \<open>setX(v)\<close>, the updater that \<open>useState\<close> returns called
  with a value, and \<open>set_by f\<close> is \<open>this.setState(f)\<close> with a function of the previous
  state. \<open>Mutate f\<close> is an assignment to the state itself, which the framework does not
  see.
\<close>

datatype 's request = Update "'s \<Rightarrow> 's" | Mutate "'s \<Rightarrow> 's"

definition set_to :: "'s \<Rightarrow> 's request" where
  "set_to v = Update (\<lambda>_. v)"

definition set_by :: "('s \<Rightarrow> 's) \<Rightarrow> 's request" where
  "set_by f = Update f"

fun requested :: "'s request \<Rightarrow> 's \<Rightarrow> 's" where
  "requested (Update f) s = f s"
| "requested (Mutate f) s = f s"

fun is_update :: "'s request \<Rightarrow> bool" where
  "is_update (Update f) = True"
| "is_update (Mutate f) = False"

text \<open>
  The part of the host that effects touch: the document title, the console, and the
  pending timers (identifier and the message the callback logs); the delay of a timer is
  not modelled, a pending timer may fire at any later step.
\<close>

record host =
  document_title :: "piece list"
  console :: "string list"
  timers :: "(nat \<times> string) list"
  next_timer :: nat

definition console_log :: "string \<Rightarrow> host \<Rightarrow> host" where
  "console_log msg h = h\<lparr>console := console h @ [msg]\<rparr>"

text \<open>\<open>setTimeout(() => console.log(msg), delay)\<close>: registers a timer, returns its id.\<close>

definition setTimeout :: "string \<Rightarrow> nat \<Rightarrow> host \<Rightarrow> nat \<times> host" where
  "setTimeout msg delay h =
     (next_timer h,
      h\<lparr>timers := timers h @ [(next_timer h, msg)], next_timer := Suc (next_timer h)\<rparr>)"

definition clearTimeout :: "nat \<Rightarrow> host \<Rightarrow> host" where
  "clearTimeout timerId h = h\<lparr>timers := filter (\<lambda>t. fst t \<noteq> timerId) (timers h)\<rparr>"

text \<open>A pending timer fires: its callback logs the message and the timer is gone.\<close>

definition fire_timer :: "nat \<Rightarrow> host \<Rightarrow> host" where
  "fire_timer timerId h =
     (case map_of (timers h) timerId of
        None \<Rightarrow> h
      | Some msg \<Rightarrow> console_log msg (clearTimeout timerId h))"

text \<open>The only cleanup function an example returns from an effect.\<close>

datatype cleanup = ClearTimeout nat

fun run_cleanup :: "cleanup option \<Rightarrow> host \<Rightarrow> host" where
  "run_cleanup None h = h"
| "run_cleanup (Some (ClearTimeout timerId)) h = clearTimeout timerId h"

text \<open>The second argument of \<open>useEffect\<close>: omitted, or an array of values.\<close>

datatype deps = NoDeps | Deps "jsnum list"

record effect =
  eff_deps :: deps
  eff_body :: "host \<Rightarrow> host \<times> cleanup option"

text \<open>
  An effect runs after the first render, and after a later render when it has no
  dependency array or a value in the array changed.
\<close>

fun deps_changed :: "deps \<Rightarrow> deps \<Rightarrow> bool" where
  "deps_changed prev NoDeps = True"
| "deps_changed NoDeps (Deps ds) = True"
| "deps_changed (Deps ds') (Deps ds) = (ds' \<noteq> ds)"

type_synonym hook = "deps \<times> cleanup option"

fun mount_effects :: "effect list \<Rightarrow> host \<Rightarrow> host \<times> hook list" where
  "mount_effects [] h = (h, [])"
| "mount_effects (e # es) h =
     (let (h1, c) = eff_body e h;
          (h2, ks) = mount_effects es h1
      in (h2, (eff_deps e, c) # ks))"

text \<open>
  A component calls its hooks in the same order on every render, so the effects of a
  render and the bookkeeping of the render before correspond position by position.
  After a re-render, first the cleanups of the effects that run again ...
\<close>

fun cleanup_effects :: "effect list \<Rightarrow> hook list \<Rightarrow> host \<Rightarrow> host" where
  "cleanup_effects (e # es) (k # ks) h =
     cleanup_effects es ks
       (if deps_changed (fst k) (eff_deps e) then run_cleanup (snd k) h else h)"
| "cleanup_effects es ks h = h"

text \<open>... then those effects themselves, in the order of the calls of \<open>useEffect\<close>.\<close>

fun rerun_effects :: "effect list \<Rightarrow> hook list \<Rightarrow> host \<Rightarrow> host \<times> hook list" where
  "rerun_effects (e # es) (k # ks) h =
     (if deps_changed (fst k) (eff_deps e)
      then (let (h1, c) = eff_body e h;
                (h2, ks') = rerun_effects es ks h1
            in (h2, (eff_deps e, c) # ks'))
      else (let (h2, ks') = rerun_effects es ks h
            in (h2, k # ks')))"
| "rerun_effects es ks h = (h, [])"

definition update_effects :: "effect list \<Rightarrow> hook list \<Rightarrow> host \<Rightarrow> host \<times> hook list" where
  "update_effects es ks h = rerun_effects es ks (cleanup_effects es ks h)"

text \<open>
  A component as the framework sees it: the initial state (the argument of \<open>useState\<close>,
  or the constructor's \<open>this.state\<close>), the body that maps props and current state to
  its result (an element description, for a body that cannot fail), and the effects the
  body registers with \<open>useEffect\<close>.
\<close>

record ('p, 's, 'r) component =
  init_state :: "'p \<Rightarrow> 's"
  render :: "'p \<Rightarrow> 's \<Rightarrow> 'r"
  effects :: "'p \<Rightarrow> 's \<Rightarrow> effect list"

text \<open>A mounted component: its state, the bookkeeping of its effects, and the host.\<close>

record 's mounted =
  st :: 's
  hooks :: "hook list"
  hst :: host

definition mount :: "('p, 's, 'r) component \<Rightarrow> 'p \<Rightarrow> host \<Rightarrow> 's mounted" where
  "mount c p h =
     (let s = init_state c p;
          (h', ks) = mount_effects (effects c p s) h
      in \<lparr>st = s, hooks = ks, hst = h'\<rparr>)"

text \<open>
  A click runs the first \<open>onClick\<close> handler of the current description, and the state
  becomes what the handler asks for.
\<close>

definition click_state :: "('p, 's, 's request element) component \<Rightarrow> 'p \<Rightarrow> 's \<Rightarrow> 's" where
  "click_state c p s = (case handlers (render c p s) of [] \<Rightarrow> s | r # _ \<Rightarrow> requested r s)"

datatype event = Click | TimerFires nat

text \<open>
  After an update that went through the framework, the framework renders again and
  runs the effects. It does neither after an assignment it does not see, and a click
  with no handler does nothing.
\<close>

fun step ::
    "('p, 's, 's request element) component \<Rightarrow> 'p \<Rightarrow> 's mounted \<Rightarrow> event \<Rightarrow> 's mounted" where
  "step c p i Click =
     (case handlers (render c p (st i)) of
        [] \<Rightarrow> i
      | Update f # _ \<Rightarrow>
          (let s = f (st i);
               (h', ks) = update_effects (effects c p s) (hooks i) (hst i)
           in \<lparr>st = s, hooks = ks, hst = h'\<rparr>)
      | Mutate f # _ \<Rightarrow> i\<lparr>st := f (st i)\<rparr>)"
| "step c p i (TimerFires timerId) = i\<lparr>hst := fire_timer timerId (hst i)\<rparr>"

definition run ::
    "('p, 's, 's request element) component \<Rightarrow> 'p \<Rightarrow> event list \<Rightarrow> 's mounted \<Rightarrow> 's mounted" where
  "run c p evs i = foldl (step c p) i evs"

text \<open>Unmounting runs every cleanup that is still registered.\<close>

definition unmount :: "'s mounted \<Rightarrow> host" where
  "unmount i = foldl (\<lambda>h k. run_cleanup (snd k) h) (hst i) (hooks i)"

text \<open>The state of a component after \<open>k\<close> clicks, and what it then shows.\<close>

definition after_clicks :: "('p, 's, 's request element) component \<Rightarrow> 'p \<Rightarrow> nat \<Rightarrow> 's" where
  "after_clicks c p k = (click_state c p ^^ k) (init_state c p)"

definition shown ::
    "('p, 's, 's request element) component \<Rightarrow> 'p \<Rightarrow> nat \<Rightarrow> 's request element" where
  "shown c p k = render c p (after_clicks c p k)"


section \<open>The host document and the renderer\<close>

record dom_node =
  node_tag :: string
  node_id :: string

type_synonym document = "dom_node list"

text \<open>\<open>document.getElementById\<close>: the first node with the id, \<open>null\<close> when there is none.\<close>

definition getElementById :: "document \<Rightarrow> string \<Rightarrow> dom_node option" where
  "getElementById doc i = find (\<lambda>n. node_id n = i) doc"

text \<open>
  The names a module binds to component functions (its own and the imported ones); a
  component element refers to its component through them.
\<close>

type_synonym 'h scope = "(string \<times> ((string \<times> aval) list \<Rightarrow> 'h element)) list"

definition instantiate :: "'h scope \<Rightarrow> 'h element \<Rightarrow> 'h element" where
  "instantiate sc e =
     (case e of
        Comp nm props fs \<Rightarrow> (case map_of sc nm of Some f \<Rightarrow> f props | None \<Rightarrow> e)
      | _ \<Rightarrow> e)"

text \<open>
  \<open>render\<close> of the external package \<open>react-dom\<close>, by its contract: it rejects a
  container that is not a DOM element (\<open>null\<close> here) with the error
  ``Target container is not a DOM element.'', and otherwise attaches to the container
  what the element at the root describes, calling the component of a component element.
\<close>

definition reactDomRender ::
    "'h scope \<Rightarrow> 'h element \<Rightarrow> dom_node option \<Rightarrow> error + (dom_node \<times> 'h element)" where
  "reactDomRender sc e container =
     (case container of
        None \<Rightarrow> Inl TargetContainerIsNotADOMElement
      | Some node \<Rightarrow> Inr (node, instantiate sc e))"


section \<open>The files of the repository\<close>

datatype source_file =
    F_index
  | F_part_000
  | F_01_Sherlock
  | F_02_Detective
  | F_03_DetectiveInTheField
  | F_04_Hooks
  | F_05_ThinkingInReact


text \<open>The names each file binds at its top level, by import or by declaration.\<close>

fun declared :: "source_file \<Rightarrow> string list" where
  "declared F_index = [''React'', ''render'', ''Sherlock'', ''containerDomNode'', ''reactElementTree'']"
| "declared F_part_000 = [''React'', ''reactDomRender'', ''reactElementTree'', ''domContainer'']"
| "declared F_01_Sherlock = [''React'', ''Sherlock'']"
| "declared F_02_Detective = [''React'', ''Detective'', ''DetectivesList'']"
| "declared F_03_DetectiveInTheField =
     [''React'', ''DetectiveInTheField'', ''DetectiveInTheFieldClass'']"
| "declared F_04_Hooks =
     [''React'', ''Counter'', ''CounterWithSideEffects'', ''useToggleState'', ''Toggle'']"
| "declared F_05_ThinkingInReact =
     [''React'', ''SlaPageTitle'', ''SlaActionBar'', ''SlaListPage'', ''PageTitle'']"


section \<open>01-Sherlock.tsx\<close>

definition Sherlock :: "unit \<Rightarrow> 'h element" where
  "Sherlock _ =
     Host ''div'' [] [] [Text [Lit ''Hi, My name is Sherlock Holmes. I've solved 27 cases.'']]"


section \<open>The terminology guide (\<open>unnamed/part_000\<close>) and index.tsx\<close>

text \<open>The top level of the guide: \<open><h1 id="title">Hello, World!</h1>\<close> rendered to \<open>#root\<close>.\<close>

definition part_000_top_level :: "document \<Rightarrow> error + (dom_node \<times> 'h element)" where
  "part_000_top_level doc =
     (let reactElementTree = Host ''h1'' [(''id'', ALit ''title'')] [] [Text [Lit ''Hello, World!'']];
          domContainer = getElementById doc ''root''
      in reactDomRender [] reactElementTree domContainer)"

text \<open>
  The top level of index.tsx. \<open>Sherlock\<close> is the binding it imports from
  \<open>./01-Sherlock\<close>, taken as a parameter.
\<close>

definition index_top_level ::
    "(unit \<Rightarrow> 'h element) \<Rightarrow> document \<Rightarrow> error + (dom_node \<times> 'h element)" where
  "index_top_level Sherlock_import doc =
     (let containerDomNode = getElementById doc ''root'';
          reactElementTree = Comp ''Sherlock'' [] []
      in reactDomRender [(''Sherlock'', \<lambda>_. Sherlock_import ())] reactElementTree containerDomNode)"


section \<open>02-Detective.tsx\<close>

record IProps_02 =
  name :: string
  casesSolved :: jsnum

definition Detective :: "IProps_02 \<Rightarrow> 'h element" where
  "Detective props =
     (let name = IProps_02.name props;
          casesSolved = IProps_02.casesSolved props
      in Host ''div'' [] []
           [Text [Lit ''I'm '', Subst name, Lit ''. I've solved '',
                  SubstNum casesSolved, Lit '' cases.'']])"

record IDetective =
  name :: string
  casesSolved :: jsnum

definition detectives :: "IDetective list" where
  "detectives =
     [\<lparr>IDetective.name = ''Sherlock Holmes'', IDetective.casesSolved = Num 27\<rparr>,
      \<lparr>IDetective.name = ''CID Daya'', IDetective.casesSolved = Num 0\<rparr>]"

definition DetectivesList :: "unit \<Rightarrow> 'h element" where
  "DetectivesList _ =
     Host ''div'' [] []
       (map (\<lambda>detective.
               Comp ''Detective''
                 [(''key'', AStr (IDetective.name detective)),
                  (''name'', AStr (IDetective.name detective)),
                  (''casesSolved'', ANum (IDetective.casesSolved detective))] [])
            detectives)"


section \<open>03-DetectiveInTheField.tsx\<close>

record IProps_03 =
  name :: string
  casesSolvedSoFar :: jsnum

definition DetectiveInTheField :: "(IProps_03, jsnum, jsnum request element) component" where
  "DetectiveInTheField =
     \<lparr>init_state = (\<lambda>props. js_default (casesSolvedSoFar props) (Num 0)),
      render = (\<lambda>props casesSolved.
        let name = IProps_03.name props;
            incrementCasesSolved = set_to (js_add casesSolved 1)
        in Fragment
             [Host ''div'' [] []
                [Text [Lit ''I'm '', Subst name, Lit ''.''],
                 Host ''br'' [] [] [],
                 Text (if js_gt casesSolved 0
                       then [Lit ''I've solved '', SubstNum casesSolved, Lit '' '',
                             Lit (if js_gt casesSolved 1 then ''cases'' else ''case''), Lit ''.'']
                       else [Lit ''I'm a detective in the making.''])],
              Host ''br'' [] [] [],
              Host ''button'' [] [(''onClick'', incrementCasesSolved)]
                [Text [Lit ''Solve this case'']]]),
      effects = (\<lambda>props casesSolved. [])\<rparr>"

record IState =
  casesSolved :: jsnum

definition DetectiveInTheFieldClass :: "(IProps_03, IState, IState request element) component" where
  "DetectiveInTheFieldClass =
     \<lparr>init_state = (\<lambda>props. \<lparr>IState.casesSolved = casesSolvedSoFar props\<rparr>),
      render = (\<lambda>props state.
        let name = IProps_03.name props;
            casesSolved = IState.casesSolved state;
            incrementCasesSolved =
              set_by (\<lambda>prevState. \<lparr>IState.casesSolved = js_add (IState.casesSolved prevState) 1\<rparr>)
        in Fragment
             [Host ''div'' [] []
                [Text [Lit ''I'm '', Subst name, Lit ''.''],
                 Host ''br'' [] [] [],
                 Text (if js_gt casesSolved 0
                       then [Lit ''I've solved '', SubstNum casesSolved, Lit '' '',
                             Lit (if js_gt casesSolved 1 then ''cases'' else ''case''), Lit ''.'']
                       else [Lit ''I'm a detective in the making.''])],
              Host ''br'' [] [] [],
              Host ''button'' [] [(''onClick'', incrementCasesSolved)]
                [Text [Lit ''Solve this case'']]]),
      effects = (\<lambda>props state. [])\<rparr>"


section \<open>04-Hooks.tsx\<close>

record Counter_state =
  count :: jsnum
  searchKey :: string
  filter_key :: string

text \<open>The updater \<open>useState\<close> returns for \<open>count\<close> replaces that state variable.\<close>

definition setCount :: "jsnum \<Rightarrow> Counter_state request" where
  "setCount v = Update (\<lambda>s. s\<lparr>count := v\<rparr>)"

definition Counter :: "(unit, Counter_state, Counter_state request element) component" where
  "Counter =
     \<lparr>init_state = (\<lambda>_. \<lparr>count = Num 0, searchKey = [], filter_key = []\<rparr>),
      render = (\<lambda>_ s.
        let count = count s
        in Fragment
             [Host ''div'' [] [] [Text [SubstNum count]],
              Host ''button'' [] [(''onClick'', setCount (js_add count 1))]
                [Text [Lit ''Increment'']]]),
      effects = (\<lambda>_ s. [])\<rparr>"

definition CounterWithSideEffects :: "(unit, jsnum, jsnum request element) component" where
  "CounterWithSideEffects =
     \<lparr>init_state = (\<lambda>_. Num 0),
      render = (\<lambda>_ count.
        let setCount = set_to
        in Fragment
             [Host ''div'' [] [] [Text [SubstNum count]],
              Host ''button'' [] [(''onClick'', setCount (js_add count 1))]
                [Text [Lit ''Increment'']]]),
      effects = (\<lambda>_ count.
        [\<lparr>eff_deps = NoDeps,
          eff_body = (\<lambda>h. (h\<lparr>document_title := [SubstNum count, Lit '' clicks'']\<rparr>, None))\<rparr>,
         \<lparr>eff_deps = NoDeps,
          eff_body = (\<lambda>h. let (timerId, h') = setTimeout ''Some useful message'' 5000 h
                          in (h', Some (ClearTimeout timerId)))\<rparr>,
         \<lparr>eff_deps = NoDeps,
          eff_body = (\<lambda>h. (console_log ''Runs on each render'' h, None))\<rparr>,
         \<lparr>eff_deps = Deps [],
          eff_body = (\<lambda>h. (console_log ''Runs only on the first render'' h, None))\<rparr>,
         \<lparr>eff_deps = Deps [count],
          eff_body = (\<lambda>h. (console_log ''Runs only when count changes'' h, None))\<rparr>])\<rparr>"

text \<open>
  The custom hook, given the current value of its state variable (at the first render
  the \<open>initialState\<close> it was called with): it returns that value and \<open>toggleState\<close>.
\<close>

definition useToggleState :: "bool option \<Rightarrow> bool option \<times> bool option request" where
  "useToggleState state =
     (let setState = set_to;
          toggleState = setState (js_not state)
      in (state, toggleState))"

definition Toggle :: "(unit, bool option, bool option request element) component" where
  "Toggle =
     \<lparr>init_state = (\<lambda>_. Some False),
      render = (\<lambda>_ s.
        let (state, toggleState) = useToggleState s
        in Host ''div'' [(''style.color'', ALit (if js_truthy state then ''red'' else ''black''))]
             [(''onClick'', toggleState)]
             [Text [Lit ''Click to change the color'']]),
      effects = (\<lambda>_ s. [])\<rparr>"


section \<open>05-ThinkingInReact.tsx\<close>



record SlaListPage_state =
  searchText :: string
  filters :: "string list"

text \<open>The updaters \<open>SlaListPage\<close> hands to its children as props.\<close>

datatype updater =
    StringUpdater "string \<Rightarrow> SlaListPage_state request"
  | ListUpdater "string list \<Rightarrow> SlaListPage_state request"

definition setSearchText :: "string \<Rightarrow> SlaListPage_state request" where
  "setSearchText v = Update (\<lambda>s. s\<lparr>searchText := v\<rparr>)"

definition setFilters :: "string list \<Rightarrow> SlaListPage_state request" where
  "setFilters v = Update (\<lambda>s. s\<lparr>filters := v\<rparr>)"

text \<open>
  The page is implemented in part: its body names \<open>SlaFilters\<close> and \<open>SlaTable\<close>, which
  the file neither declares nor imports. Its result depends on the globals of the host
  it runs in: where the host defines neither name, evaluating the body raises a
  \<open>ReferenceError\<close> for \<open>SlaFilters\<close>, the first of the two to be evaluated.
\<close>

definition SlaListPage ::
    "(unit, SlaListPage_state, string list \<Rightarrow> error + updater element) component" where
  "SlaListPage =
     \<lparr>init_state = (\<lambda>_. \<lparr>searchText = [], filters = []\<rparr>),
      render = (\<lambda>_ s globals.
        let searchText = searchText s;
            filters = filters s
        in evaluate_jsx (declared F_05_ThinkingInReact) globals
             (Fragment
                [Comp ''SlaPageTitle'' [] [],
                 Comp ''SlaActionBar'' [(''searchText'', AStr searchText)]
                   [(''setSearchText'', StringUpdater setSearchText)],
                 Comp ''SlaFilters'' [(''filters'', AStrs filters)]
                   [(''setFilters'', ListUpdater setFilters)],
                 Comp ''SlaTable'' [(''searchText'', AStr searchText), (''filters'', AStrs filters)]
                   []])),
      effects = (\<lambda>_ s. [])\<rparr>"

record IProps_05 =
  title :: string

text \<open>The parameter the source calls \<open>title\<close> is the props object, and it is the child.\<close>

definition PageTitle :: "IProps_05 \<Rightarrow> 'h element" where
  "PageTitle props =
     (let title = props
      in Host ''div'' [(''style.fontSize'', ALit ''40px''), (''style.color'', ALit ''teal'')] []
           [ObjectChild [(''title'', AStr (IProps_05.title title))]])"


section \<open>Notions used by the properties\<close>

text \<open>
  One application of the toggle with a render before it: the hook is called with the
  current state, and the \<open>toggleState\<close> it returns is called once.
\<close>

definition toggled :: "bool option \<Rightarrow> bool option" where
  "toggled s = (let (state, toggleState) = useToggleState s in requested toggleState state)"

text \<open>
  The effect bookkeeping of a mounted \<open>CounterWithSideEffects\<close> whose last timer has
  the id \<open>t\<close> and whose last render saw the count \<open>c\<close>.
\<close>

definition timer_hooks :: "nat \<Rightarrow> jsnum \<Rightarrow> hook list" where
  "timer_hooks t c =
     [(NoDeps, None), (NoDeps, Some (ClearTimeout t)), (NoDeps, None), (Deps [], None),
      (Deps [c], None)]"

text \<open>
  The invariant of a mounted \<open>CounterWithSideEffects\<close>: the only timer that can be
  pending is the one its registered cleanup clears.
\<close>

definition one_timer :: "jsnum mounted \<Rightarrow> bool" where
  "one_timer i =
     (\<exists>t c. hooks i = timer_hooks t c
        \<and> (timers (hst i) = [] \<or> timers (hst i) = [(t, ''Some useful message'')]))"








section \<open>Doubles that are integers\<close>

lemma of_rat_powi: "(of_rat ((2::rat) powi e) :: real) = 2 powi e"
  by (cases "0 \<le> e") (simp_all add: power_int_def of_rat_power of_rat_inverse of_rat_divide)

lemma binade_eqI:
  assumes "2 powi e \<le> \<bar>x\<bar>" "\<bar>x\<bar> < 2 powi (e + 1)"
  shows "binade x = e"
proof -
  have "0 < (2::rat) powi e"
    by simp
  with assms(1) have pos: "0 < \<bar>x\<bar>"
    by linarith
  have p: "(2::real) powr (real_of_int k) = of_rat ((2::rat) powi k)" for k
    by (simp add: powr_real_of_int' of_rat_powi)
  have lo: "(2::real) powr (real_of_int e) \<le> of_rat \<bar>x\<bar>"
    unfolding p using assms(1) by (simp only: of_rat_less_eq)
  have hi: "of_rat \<bar>x\<bar> < (2::real) powr (real_of_int (e + 1))"
    unfolding p using assms(2) by (simp only: of_rat_less)
  have "0 < (of_rat \<bar>x\<bar> :: real)"
    using pos by (simp add: zero_less_of_rat_iff)
  then show ?thesis
    unfolding binade_def using lo hi floor_log_eq_powr_iff [of "of_rat \<bar>x\<bar>" 2 e] by simp
qed

lemma binade_bounds:
  assumes "x \<noteq> 0"
  shows "2 powi binade x \<le> \<bar>x\<bar> \<and> \<bar>x\<bar> < 2 powi (binade x + 1)"
proof -
  have p: "(2::real) powr (real_of_int k) = of_rat ((2::rat) powi k)" for k
    by (simp add: powr_real_of_int' of_rat_powi)
  have "0 < (of_rat \<bar>x\<bar> :: real)"
    using assms by (simp add: zero_less_of_rat_iff)
  then have "(2::real) powr (real_of_int (binade x)) \<le> of_rat \<bar>x\<bar>
      \<and> of_rat \<bar>x\<bar> < (2::real) powr (real_of_int (binade x + 1))"
    using floor_log_eq_powr_iff [of "of_rat \<bar>x\<bar>" 2 "binade x"] by (simp add: binade_def)
  then show ?thesis
    unfolding p by (simp only: of_rat_less_eq of_rat_less)
qed

lemma binade_safe:
  assumes "1 \<le> \<bar>x\<bar>" "\<bar>x\<bar> \<le> 2 ^ 53"
  shows "0 \<le> binade x \<and> binade x \<le> 53"
proof -
  have nz: "x \<noteq> 0" using assms(1) by auto
  note b = binade_bounds [OF nz]
  have "(2::rat) powi binade x \<le> 2 powi 53"
    using b assms(2) by simp
  then have up: "binade x \<le> 53"
    by (rule power_int_le_imp_le_exp [rotated]) simp_all
  have "\<not> binade x + 1 \<le> 0"
  proof
    assume "binade x + 1 \<le> 0"
    then have "(2::rat) powi (binade x + 1) \<le> 2 powi 0"
      by (intro power_int_increasing) simp_all
    with b assms(1) show False by simp
  qed
  with up show ?thesis by simp
qed

lemma round_half_even_of_int: "round_half_even (of_int z) = z"
  by (simp add: round_half_even_def)

text \<open>A number that is a multiple of the spacing of the doubles around it is a double.\<close>

lemma round_double_exact:
  assumes "x \<noteq> 0" "x / 2 powi (max (binade x) (- 1022) - 52) = of_int z" "\<bar>x\<bar> < 2 ^ 1024"
  shows "round_double x = Num x"
proof -
  let ?u = "(2::rat) powi (max (binade x) (- 1022) - 52)"
  have u: "?u \<noteq> 0" by (simp add: power_int_not_zero)
  have "x = of_int z * ?u"
    using u assms(2) by (metis nonzero_divide_eq_eq)
  then have r: "?u * of_int (round_half_even (x / ?u)) = x"
    unfolding assms(2) round_half_even_of_int by (metis mult.commute)
  have "\<not> 2 ^ 1024 \<le> x" "\<not> x \<le> - (2 ^ 1024)"
    using assms(3) by linarith+
  then show ?thesis
    unfolding round_double_def Let_def r using assms(1) by (simp only: if_False)
qed

text \<open>Every integer of magnitude up to \<open>2 ^ 53\<close> is a double, so a sum that is one is exact.\<close>

lemma round_double_of_int:
  assumes "\<bar>m\<bar> \<le> 2 ^ 53"
  shows "round_double (of_int m) = Num (of_int m)"
proof (cases "m = 0")
  case True
  then show ?thesis by (simp add: round_double_def)
next
  case False
  let ?x = "of_int m :: rat"
  have ax: "1 \<le> \<bar>?x\<bar>" "\<bar>?x\<bar> \<le> 2 ^ 53"
    using False assms by (simp_all flip: of_int_abs)
  from binade_safe [OF ax] have e: "0 \<le> binade ?x" "binade ?x \<le> 53" by simp_all
  have "\<exists>z. ?x / 2 powi (max (binade ?x) (- 1022) - 52) = of_int z"
  proof (cases "binade ?x = 53")
    case True
    with binade_bounds [of ?x] False ax have "\<bar>?x\<bar> = 2 ^ 53" by simp
    then have "\<bar>m\<bar> = 2 ^ 53"
      by (metis of_int_abs of_int_eq_iff of_int_numeral of_int_power)
    then have "m = 2 ^ 53 \<or> m = - (2 ^ 53)" by linarith
    then show ?thesis
      using True by (auto intro: exI [of _ "2 ^ 52"] exI [of _ "- (2 ^ 52)"])
  next
    case ne: False
    with e have le: "binade ?x \<le> 52" by simp
    have q: "max (binade ?x) (- 1022) - 52 = - int (nat (52 - binade ?x))"
      using e le by simp
    have "?x / 2 powi (max (binade ?x) (- 1022) - 52) = of_int (m * 2 ^ nat (52 - binade ?x))"
      unfolding q power_int_minus power_int_of_nat by (simp add: divide_inverse)
    then show ?thesis ..
  qed
  then obtain z where z: "?x / 2 powi (max (binade ?x) (- 1022) - 52) = of_int z" ..
  have "\<bar>?x\<bar> < 2 ^ 1024"
    using ax(2) by (rule le_less_trans) simp
  with round_double_exact [OF _ z] False show ?thesis by simp
qed

text \<open>\<open>2 ^ 53 + 1\<close> is no double: it lies halfway between two, and the even one is \<open>2 ^ 53\<close>.\<close>

lemma round_double_tie: "round_double (2 ^ 53 + 1) = Num (2 ^ 53)"
proof -
  let ?x = "2 ^ 53 + 1 :: rat"
  have b: "binade ?x = 53"
    by (rule binade_eqI) simp_all
  have f: "\<lfloor>?x / 2\<rfloor> = 2 ^ 52"
    by (rule floor_unique) simp_all
  have h: "round_half_even (?x / 2) = 2 ^ 52"
    unfolding round_half_even_def Let_def f by simp
  have u: "(2::rat) powi (max (53::int) (- 1022) - 52) = 2"
    by simp
  have nz: "?x \<noteq> 0" by simp
  show ?thesis
    unfolding round_double_def Let_def b u h using nz by simp
qed

lemma js_add_of_int:
  "\<bar>m + n\<bar> \<le> 2 ^ 53 \<Longrightarrow> js_add (Num (of_int m)) (of_int n) = Num (of_int (m + n))"
  using round_double_of_int [of "m + n"] by simp

lemma js_add_1_of_int:
  "\<bar>m + 1\<bar> \<le> 2 ^ 53 \<Longrightarrow> js_add (Num (of_int m)) 1 = Num (of_int (m + 1))"
  using js_add_of_int [of m 1] by simp

lemma js_add_0_1: "js_add (Num 0) 1 = Num 1"
  using js_add_1_of_int [of 0] by simp

lemma js_to_string_of_int:
  "\<bar>m\<bar> \<le> 2 ^ 53 \<Longrightarrow> js_to_string conv (Num (of_int m)) = string_of_int m"
  by (simp flip: of_int_abs)


section \<open>What the descriptions contain\<close>

lemma texts_pieces: "texts conv e = map (text_of conv) (pieces e)"
  by (induction e) (simp_all add: map_concat cong: map_cong)

lemma after_clicks_0: "after_clicks c p 0 = init_state c p"
  by (simp add: after_clicks_def)

lemma after_clicks_Suc: "after_clicks c p (Suc k) = click_state c p (after_clicks c p k)"
  by (simp add: after_clicks_def)


section \<open>The detective in the field, as a function and as a class\<close>

lemma init_state_DetectiveInTheField:
  "init_state DetectiveInTheField p = js_default (casesSolvedSoFar p) (Num 0)"
  by (simp add: DetectiveInTheField_def)

lemma init_state_DetectiveInTheFieldClass:
  "init_state DetectiveInTheFieldClass p = \<lparr>IState.casesSolved = casesSolvedSoFar p\<rparr>"
  by (simp add: DetectiveInTheFieldClass_def)

lemma handlers_DetectiveInTheField:
  "handlers (render DetectiveInTheField p s) = [set_to (js_add s 1)]"
  by (simp add: DetectiveInTheField_def Let_def)

lemma handlers_DetectiveInTheFieldClass:
  "handlers (render DetectiveInTheFieldClass p s) =
     [set_by (\<lambda>prevState. \<lparr>IState.casesSolved = js_add (IState.casesSolved prevState) 1\<rparr>)]"
  by (simp add: DetectiveInTheFieldClass_def Let_def)

lemma pieces_DetectiveInTheField:
  "pieces (render DetectiveInTheField p c) =
     [[Lit ''I'm '', Subst (IProps_03.name p), Lit ''.''],
      (if js_gt c 0
       then [Lit ''I've solved '', SubstNum c, Lit '' '',
             Lit (if js_gt c 1 then ''cases'' else ''case''), Lit ''.'']
       else [Lit ''I'm a detective in the making.'']),
      [Lit ''Solve this case'']]"
  by (simp add: DetectiveInTheField_def Let_def)

lemma pieces_DetectiveInTheFieldClass:
  "pieces (render DetectiveInTheFieldClass p s) =
     [[Lit ''I'm '', Subst (IProps_03.name p), Lit ''.''],
      (if js_gt (IState.casesSolved s) 0
       then [Lit ''I've solved '', SubstNum (IState.casesSolved s), Lit '' '',
             Lit (if js_gt (IState.casesSolved s) 1 then ''cases'' else ''case''), Lit ''.'']
       else [Lit ''I'm a detective in the making.'']),
      [Lit ''Solve this case'']]"
  by (simp add: DetectiveInTheFieldClass_def Let_def)

lemma click_state_DetectiveInTheField:
  "click_state DetectiveInTheField p s = js_add s 1"
  by (simp add: click_state_def handlers_DetectiveInTheField set_to_def)

lemma click_state_DetectiveInTheFieldClass:
  "click_state DetectiveInTheFieldClass p s =
     \<lparr>IState.casesSolved = js_add (IState.casesSolved s) 1\<rparr>"
  by (simp add: click_state_def handlers_DetectiveInTheFieldClass set_by_def)

text \<open>From an integer, clicks count exactly as long as the count stays within \<open>2 ^ 53\<close>.\<close>

lemma after_clicks_DetectiveInTheField_int:
  "casesSolvedSoFar p = Num (of_int n) \<Longrightarrow> \<bar>n\<bar> + int k \<le> 2 ^ 53 \<Longrightarrow>
   after_clicks DetectiveInTheField p k = Num (of_int (n + int k))"
proof (induction k)
  case 0
  then show ?case
    by (simp add: after_clicks_0 init_state_DetectiveInTheField js_default_def)
next
  case (Suc k)
  then have ih: "after_clicks DetectiveInTheField p k = Num (of_int (n + int k))"
    by simp
  have "\<bar>(n + int k) + 1\<bar> \<le> 2 ^ 53"
    using Suc.prems(2) by simp
  then have add: "js_add (Num (of_int (n + int k))) 1 = Num (of_int ((n + int k) + 1))"
    by (rule js_add_1_of_int)
  show ?case
    unfolding after_clicks_Suc click_state_DetectiveInTheField ih add
    by (simp add: algebra_simps)
qed

lemma after_clicks_DetectiveInTheField_Undefined:
  "casesSolvedSoFar p = Undefined \<Longrightarrow> int k \<le> 2 ^ 53 \<Longrightarrow>
   after_clicks DetectiveInTheField p k = Num (of_int (int k))"
proof (induction k)
  case 0
  then show ?case
    by (simp add: after_clicks_0 init_state_DetectiveInTheField js_default_def)
next
  case (Suc k)
  then have ih: "after_clicks DetectiveInTheField p k = Num (of_int (int k))"
    by simp
  have "\<bar>int k + 1\<bar> \<le> 2 ^ 53"
    using Suc.prems(2) by simp
  then have add: "js_add (Num (of_int (int k))) 1 = Num (of_int (int k + 1))"
    by (rule js_add_1_of_int)
  show ?case
    unfolding after_clicks_Suc click_state_DetectiveInTheField ih add
    by (simp add: algebra_simps)
qed

text \<open>
  When the prop is given, the state of the class is the state of the function at every
  number of clicks, and the two show the same markup.
\<close>

lemma after_clicks_DetectiveInTheFieldClass:
  "casesSolvedSoFar p \<noteq> Undefined \<Longrightarrow>
   after_clicks DetectiveInTheFieldClass p k =
     \<lparr>IState.casesSolved = after_clicks DetectiveInTheField p k\<rparr>"
  by (induction k)
     (simp_all add: after_clicks_0 after_clicks_Suc init_state_DetectiveInTheField
        init_state_DetectiveInTheFieldClass
        click_state_DetectiveInTheField click_state_DetectiveInTheFieldClass js_default_def)

lemma markup_render_DetectiveInTheFieldClass:
  "markup (render DetectiveInTheFieldClass p \<lparr>IState.casesSolved = c\<rparr>) =
   markup (render DetectiveInTheField p c)"
  by (simp add: markup_def DetectiveInTheField_def DetectiveInTheFieldClass_def Let_def)

lemma DetectiveInTheFieldClass_same_markup_when_prop_given:
  "casesSolvedSoFar p \<noteq> Undefined \<Longrightarrow>
   markup (shown DetectiveInTheFieldClass p k) = markup (shown DetectiveInTheField p k)"
  by (simp add: shown_def after_clicks_DetectiveInTheFieldClass
        markup_render_DetectiveInTheFieldClass)

text \<open>
  When the prop is omitted, the constructor stores \<open>undefined\<close> (it has no default), and
  the first click turns it into \<open>NaN\<close>.
\<close>

lemma after_clicks_DetectiveInTheFieldClass_omitted:
  "casesSolvedSoFar p = Undefined \<Longrightarrow>
   after_clicks DetectiveInTheFieldClass p (Suc 0) = \<lparr>IState.casesSolved = NaN\<rparr>"
  by (simp add: after_clicks_0 after_clicks_Suc init_state_DetectiveInTheFieldClass
        click_state_DetectiveInTheFieldClass)

lemma after_clicks_DetectiveInTheField_omitted:
  "casesSolvedSoFar p = Undefined \<Longrightarrow> after_clicks DetectiveInTheField p (Suc 0) = Num 1"
  using after_clicks_DetectiveInTheField_Undefined [of p "Suc 0"] by simp

text \<open>
  C1. The class component is meant to show what the function component shows, for every
  props value and every number of clicks. It does not when \<open>casesSolvedSoFar\<close> is
  omitted: after one click the function component reports one solved case, the class
  component still says the detective is in the making.
\<close>

theorem DetectiveInTheFieldClass_differs_when_prop_omitted:
  "texts conv (shown DetectiveInTheField
            \<lparr>IProps_03.name = ''Sherlock'', casesSolvedSoFar = Undefined\<rparr> 1)
     = [''I'm Sherlock.'', ''I've solved 1 case.'', ''Solve this case'']
   \<and> texts conv (shown DetectiveInTheFieldClass
              \<lparr>IProps_03.name = ''Sherlock'', casesSolvedSoFar = Undefined\<rparr> 1)
     = [''I'm Sherlock.'', ''I'm a detective in the making.'', ''Solve this case'']"
  by (simp add: shown_def texts_pieces
        after_clicks_DetectiveInTheField_omitted [simplified]
        after_clicks_DetectiveInTheFieldClass_omitted [simplified]
        pieces_DetectiveInTheField pieces_DetectiveInTheFieldClass
        text_of_def string_of_int_def)

lemma message_DetectiveInTheField:
  "(if js_gt c 0
    then [Lit ''I've solved '', SubstNum c, Lit '' '',
          Lit (if js_gt c 1 then ''cases'' else ''case''), Lit ''.'']
    else [Lit ''I'm a detective in the making.'']) =
   (case c of
      Num a \<Rightarrow>
        if a \<le> 0 then [Lit ''I'm a detective in the making.'']
        else [Lit ''I've solved '', SubstNum (Num a), Lit '' '',
              Lit (if a \<le> 1 then ''case'' else ''cases''), Lit ''.'']
    | PosInf \<Rightarrow> [Lit ''I've solved '', SubstNum PosInf, Lit '' '', Lit ''cases'', Lit ''.'']
    | _ \<Rightarrow> [Lit ''I'm a detective in the making.''])"
  by (cases c) auto

text \<open>
  C8. For every props value and every number \<open>k\<close> of clicks, the message is ``I'm a
  detective in the making.'' exactly when the count is not greater than 0 (zero,
  negative, or \<open>NaN\<close>); otherwise it is ``I've solved <count> case.'' with the singular
  exactly when the count is at most 1, and with the plural ``cases'' when it is greater
  than 1. When \<open>casesSolvedSoFar\<close> is an integer \<open>n\<close> (0 when it is omitted) and
  \<open>|n| + k\<close> is at most \<open>2 ^ 53\<close>, the count is \<open>n + k\<close> and is shown in decimal, so the
  singular then appears exactly at the count 1.
\<close>

theorem DetectiveInTheField_count_and_message:
  "pieces (shown DetectiveInTheField p k) =
     [[Lit ''I'm '', Subst (IProps_03.name p), Lit ''.''],
      (case after_clicks DetectiveInTheField p k of
         Num a \<Rightarrow>
           if a \<le> 0 then [Lit ''I'm a detective in the making.'']
           else [Lit ''I've solved '', SubstNum (Num a), Lit '' '',
                 Lit (if a \<le> 1 then ''case'' else ''cases''), Lit ''.'']
       | PosInf \<Rightarrow> [Lit ''I've solved '', SubstNum PosInf, Lit '' '', Lit ''cases'', Lit ''.'']
       | _ \<Rightarrow> [Lit ''I'm a detective in the making.'']),
      [Lit ''Solve this case'']]
   \<and> ((casesSolvedSoFar p = Num (of_int n) \<or> casesSolvedSoFar p = Undefined \<and> n = 0)
        \<and> \<bar>n\<bar> + int k \<le> 2 ^ 53 \<longrightarrow>
      after_clicks DetectiveInTheField p k = Num (of_int (n + int k))
      \<and> texts conv (shown DetectiveInTheField p k) =
          [''I'm '' @ IProps_03.name p @ ''.'',
           (if n + int k \<le> 0 then ''I'm a detective in the making.''
            else ''I've solved '' @ string_of_int (n + int k) @ '' ''
                 @ (if n + int k = 1 then ''case'' else ''cases'') @ ''.''),
           ''Solve this case''])"
proof (intro conjI impI)
  show "pieces (shown DetectiveInTheField p k) =
     [[Lit ''I'm '', Subst (IProps_03.name p), Lit ''.''],
      (case after_clicks DetectiveInTheField p k of
         Num a \<Rightarrow>
           if a \<le> 0 then [Lit ''I'm a detective in the making.'']
           else [Lit ''I've solved '', SubstNum (Num a), Lit '' '',
                 Lit (if a \<le> 1 then ''case'' else ''cases''), Lit ''.'']
       | PosInf \<Rightarrow> [Lit ''I've solved '', SubstNum PosInf, Lit '' '', Lit ''cases'', Lit ''.'']
       | _ \<Rightarrow> [Lit ''I'm a detective in the making.'']),
      [Lit ''Solve this case'']]"
    unfolding shown_def pieces_DetectiveInTheField message_DetectiveInTheField ..
next
  assume a: "(casesSolvedSoFar p = Num (of_int n) \<or> casesSolvedSoFar p = Undefined \<and> n = 0)
        \<and> \<bar>n\<bar> + int k \<le> 2 ^ 53"
  then show count: "after_clicks DetectiveInTheField p k = Num (of_int (n + int k))"
    using after_clicks_DetectiveInTheField_int [of p n k]
      after_clicks_DetectiveInTheField_Undefined [of p k]
    by auto
  have b: "\<bar>n + int k\<bar> \<le> 2 ^ 53"
    using a by linarith
  have pos: "(0 < (of_int (n + int k) :: rat)) = (0 < n + int k)"
       "(1 < (of_int (n + int k) :: rat)) = (1 < n + int k)"
    by (simp_all only: of_int_0_less_iff of_int_1_less_iff)
  show "texts conv (shown DetectiveInTheField p k) =
          [''I'm '' @ IProps_03.name p @ ''.'',
           (if n + int k \<le> 0 then ''I'm a detective in the making.''
            else ''I've solved '' @ string_of_int (n + int k) @ '' ''
                 @ (if n + int k = 1 then ''case'' else ''cases'') @ ''.''),
           ''Solve this case'']"
    unfolding shown_def texts_pieces pieces_DetectiveInTheField count
    using js_to_string_of_int [OF b, of conv] pos
    by (auto simp: text_of_def simp del: js_to_string.simps of_int_add)
qed

text \<open>Starting from \<open>-1\<close>, three clicks give ``I've solved 2 cases.''\<close>

theorem DetectiveInTheField_count_and_message_witness:
  "\<forall>conv.
     after_clicks DetectiveInTheField
       \<lparr>IProps_03.name = ''Sherlock'', casesSolvedSoFar = Num (- 1)\<rparr> 3 = Num 2
     \<and> texts conv (shown DetectiveInTheField
                \<lparr>IProps_03.name = ''Sherlock'', casesSolvedSoFar = Num (- 1)\<rparr> 3) =
         [''I'm Sherlock.'', ''I've solved 2 cases.'', ''Solve this case'']"
proof
  fix conv
  show "after_clicks DetectiveInTheField
       \<lparr>IProps_03.name = ''Sherlock'', casesSolvedSoFar = Num (- 1)\<rparr> 3 = Num 2
     \<and> texts conv (shown DetectiveInTheField
                \<lparr>IProps_03.name = ''Sherlock'', casesSolvedSoFar = Num (- 1)\<rparr> 3) =
         [''I'm Sherlock.'', ''I've solved 2 cases.'', ''Solve this case'']"
    using DetectiveInTheField_count_and_message
      [of "\<lparr>IProps_03.name = ''Sherlock'', casesSolvedSoFar = Num (- 1)\<rparr>" 3 "- 1" conv]
    by (simp add: string_of_int_def)
qed

text \<open>
  Three props values at which the claim fails as it was stated. With \<open>-1\<close> and no click
  the message is ``I'm a detective in the making.'' although the count is not 0. With
  \<open>1/2\<close> and no click the noun is the singular ``case'' although the count is not 1.
  With \<open>2 ^ 53\<close> one click leaves the count at \<open>2 ^ 53\<close>, which is not
  \<open>casesSolvedSoFar + 1\<close>.
\<close>

theorem DetectiveInTheField_count_counterexample:
  "pieces (shown DetectiveInTheField
             \<lparr>IProps_03.name = ''Sherlock'', casesSolvedSoFar = Num (- 1)\<rparr> 0) ! 1
     = [Lit ''I'm a detective in the making.'']
   \<and> after_clicks DetectiveInTheField
        \<lparr>IProps_03.name = ''Sherlock'', casesSolvedSoFar = Num (- 1)\<rparr> 0 \<noteq> Num 0
   \<and> pieces (shown DetectiveInTheField
               \<lparr>IProps_03.name = ''Sherlock'', casesSolvedSoFar = Num (1 / 2)\<rparr> 0) ! 1
     = [Lit ''I've solved '', SubstNum (Num (1 / 2)), Lit '' '', Lit ''case'', Lit ''.'']
   \<and> after_clicks DetectiveInTheField
        \<lparr>IProps_03.name = ''Sherlock'', casesSolvedSoFar = Num (1 / 2)\<rparr> 0 \<noteq> Num 1
   \<and> after_clicks DetectiveInTheField
        \<lparr>IProps_03.name = ''Sherlock'', casesSolvedSoFar = Num (2 ^ 53)\<rparr> 1 = Num (2 ^ 53)
   \<and> Num (2 ^ 53) \<noteq> Num (2 ^ 53 + 1)"
proof -
  have "after_clicks DetectiveInTheField
        \<lparr>IProps_03.name = ''Sherlock'', casesSolvedSoFar = Num (2 ^ 53)\<rparr> (Suc 0) = Num (2 ^ 53)"
    unfolding after_clicks_Suc after_clicks_0 init_state_DetectiveInTheField
      click_state_DetectiveInTheField
    using round_double_tie by (simp add: js_default_def)
  then show ?thesis
    by (simp add: shown_def after_clicks_0 init_state_DetectiveInTheField js_default_def
          pieces_DetectiveInTheField)
qed


section \<open>The list of detectives\<close>

lemma pieces_Detective:
  "pieces (Detective p) =
     [[Lit ''I'm '', Subst (IProps_02.name p), Lit ''. I've solved '',
       SubstNum (IProps_02.casesSolved p), Lit '' cases.'']]"
  by (simp add: Detective_def Let_def)

lemma texts_Detective:
  "texts conv (Detective p) =
     [''I'm '' @ IProps_02.name p @ ''. I've solved ''
        @ js_to_string conv (IProps_02.casesSolved p) @ '' cases.'']"
  by (simp add: texts_pieces pieces_Detective text_of_def)

text \<open>
  C10. \<open>DetectivesList\<close> describes a \<open>div\<close> with exactly two \<open>Detective\<close> children, in
  this order: ``Sherlock Holmes'' with 27 solved cases, then ``CID Daya'' with 0.
  \<open>Detective\<close> renders ``I'm <name>. I've solved <casesSolved> cases.'', where
  \<open><casesSolved>\<close> is the number as JavaScript prints it, with the plural for every count:
  ``0 cases'' and ``1 cases'' included.
\<close>

theorem DetectivesList_and_Detective_render:
  "DetectivesList () =
     Host ''div'' [] []
       [Comp ''Detective''
          [(''key'', AStr ''Sherlock Holmes''), (''name'', AStr ''Sherlock Holmes''),
           (''casesSolved'', ANum (Num 27))] [],
        Comp ''Detective''
          [(''key'', AStr ''CID Daya''), (''name'', AStr ''CID Daya''),
           (''casesSolved'', ANum (Num 0))] []]
   \<and> pieces (Detective \<lparr>IProps_02.name = nm, IProps_02.casesSolved = v\<rparr>) =
       [[Lit ''I'm '', Subst nm, Lit ''. I've solved '', SubstNum v, Lit '' cases.'']]
   \<and> texts conv (Detective \<lparr>IProps_02.name = nm, IProps_02.casesSolved = v\<rparr>) =
       [''I'm '' @ nm @ ''. I've solved '' @ js_to_string conv v @ '' cases.'']
   \<and> texts conv (Detective \<lparr>IProps_02.name = ''Sherlock Holmes'', IProps_02.casesSolved = Num 27\<rparr>) =
       [''I'm Sherlock Holmes. I've solved 27 cases.'']
   \<and> texts conv (Detective \<lparr>IProps_02.name = ''CID Daya'', IProps_02.casesSolved = Num 0\<rparr>) =
       [''I'm CID Daya. I've solved 0 cases.'']
   \<and> texts conv (Detective \<lparr>IProps_02.name = ''CID Daya'', IProps_02.casesSolved = Num 1\<rparr>) =
       [''I'm CID Daya. I've solved 1 cases.'']"
  by (simp add: DetectivesList_def detectives_def texts_Detective pieces_Detective
        string_of_int_def)


section \<open>The hooks\<close>

lemma handlers_Counter: "handlers (render Counter u s) = [setCount (js_add (count s) 1)]"
  by (simp add: Counter_def Let_def)

lemma handlers_CounterWithSideEffects:
  "handlers (render CounterWithSideEffects u c) = [set_to (js_add c 1)]"
  by (simp add: CounterWithSideEffects_def Let_def)

lemma handlers_Toggle: "handlers (render Toggle u s) = [set_to (js_not s)]"
  by (simp add: Toggle_def useToggleState_def Let_def)

lemma click_state_Counter: "click_state Counter u s = s\<lparr>count := js_add (count s) 1\<rparr>"
  by (simp add: click_state_def handlers_Counter setCount_def)

lemma click_state_CounterWithSideEffects:
  "click_state CounterWithSideEffects u c = js_add c 1"
  by (simp add: click_state_def handlers_CounterWithSideEffects set_to_def)

lemma click_state_Toggle: "click_state Toggle u s = js_not s"
  by (simp add: click_state_def handlers_Toggle set_to_def)

lemma effects_without_side_effects:
  "effects DetectiveInTheField p c = []"
  "effects DetectiveInTheFieldClass p s = []"
  "effects Counter u cs = []"
  "effects Toggle u b = []"
  "effects SlaListPage u ls = []"
  by (simp_all add: DetectiveInTheField_def DetectiveInTheFieldClass_def Counter_def Toggle_def
        SlaListPage_def)

lemma toggled_eq: "toggled s = js_not s"
  by (simp add: toggled_def useToggleState_def set_to_def Let_def)

text \<open>A step changes the state only when it is a click, and then as the handler asks.\<close>

lemma st_step:
  "st (step c p i e) = (case e of Click \<Rightarrow> click_state c p (st i) | TimerFires t \<Rightarrow> st i)"
  by (cases e)
     (simp_all add: click_state_def Let_def split: prod.splits list.splits request.splits)

text \<open>
  C9. At a boolean state \<open>s\<close>, one call of the \<open>toggleState\<close> that \<open>useToggleState\<close>
  returns sets the state to \<open>\<not> s\<close>. A second call returns the state to \<open>s\<close> when the
  component has rendered in between, so that it is the \<open>toggleState\<close> of the new render
  that is called, as with two clicks on \<open>Toggle\<close>. The \<open>toggleState\<close> of one render
  called twice sets \<open>\<not> s\<close> both times: it closes over the state of its render. A click
  on \<open>Toggle\<close> changes the state variable and nothing else of the mounted component or
  the host.
\<close>

theorem useToggleState_toggle_by_render:
  "requested (snd (useToggleState (Some s))) (Some s) = Some (\<not> s)
   \<and> toggled (Some s) = Some (\<not> s)
   \<and> toggled (toggled (Some s)) = Some s
   \<and> (let (state, toggleState) = useToggleState (Some s)
       in requested toggleState (requested toggleState state)) = Some (\<not> s)
   \<and> click_state Toggle () (Some s) = toggled (Some s)
   \<and> step Toggle () \<lparr>st = Some s, hooks = [], hst = h\<rparr> Click =
       \<lparr>st = Some (\<not> s), hooks = [], hst = h\<rparr>"
  by (simp add: toggled_eq click_state_Toggle handlers_Toggle effects_without_side_effects
        useToggleState_def set_to_def js_not_def js_truthy_def update_effects_def Let_def)

text \<open>
  The updater returned at the state \<open>false\<close>, applied twice in succession, leaves the
  state at \<open>true\<close>: it is not an involution.
\<close>

theorem toggleState_twice_counterexample:
  "(let (state, toggleState) = useToggleState (Some False)
    in requested toggleState (requested toggleState state)) \<noteq> Some False"
  by (simp add: useToggleState_def set_to_def js_not_def js_truthy_def Let_def)

text \<open>
  C6. In every description a component with state renders, each event handler is a call
  of a state-update function of the framework (the updater \<open>useState\<close> returned, or
  \<open>this.setState\<close>), never an assignment to the state; and a step of the mounted
  component changes the state only on a click, to what that call asks for. The functions
  \<open>SlaListPage\<close> hands to its children are such updaters as well.
\<close>

theorem state_changes_only_through_updaters:
  "handlers (render DetectiveInTheField p c) = [Update (\<lambda>_. js_add c 1)]
   \<and> list_all is_update (handlers (render DetectiveInTheField p c))
   \<and> st (step DetectiveInTheField p i e) =
       (case e of Click \<Rightarrow> js_add (st i) 1 | TimerFires t \<Rightarrow> st i)
   \<and> handlers (render DetectiveInTheFieldClass p s) =
       [Update (\<lambda>prevState. \<lparr>IState.casesSolved = js_add (IState.casesSolved prevState) 1\<rparr>)]
   \<and> list_all is_update (handlers (render DetectiveInTheFieldClass p s))
   \<and> st (step DetectiveInTheFieldClass p j e) =
       (case e of
          Click \<Rightarrow> \<lparr>IState.casesSolved = js_add (IState.casesSolved (st j)) 1\<rparr>
        | TimerFires t \<Rightarrow> st j)
   \<and> handlers (render Counter () cs) = [Update (\<lambda>s. s\<lparr>count := js_add (count cs) 1\<rparr>)]
   \<and> list_all is_update (handlers (render Counter () cs))
   \<and> st (step Counter () ci e) =
       (case e of Click \<Rightarrow> (st ci)\<lparr>count := js_add (count (st ci)) 1\<rparr> | TimerFires t \<Rightarrow> st ci)
   \<and> handlers (render CounterWithSideEffects () n) = [Update (\<lambda>_. js_add n 1)]
   \<and> list_all is_update (handlers (render CounterWithSideEffects () n))
   \<and> st (step CounterWithSideEffects () ni e) =
       (case e of Click \<Rightarrow> js_add (st ni) 1 | TimerFires t \<Rightarrow> st ni)
   \<and> handlers (render Toggle () b) = [Update (\<lambda>_. js_not b)]
   \<and> list_all is_update (handlers (render Toggle () b))
   \<and> st (step Toggle () bi e) =
       (case e of Click \<Rightarrow> js_not (st bi) | TimerFires t \<Rightarrow> st bi)
   \<and> is_update (setSearchText v)
   \<and> is_update (setFilters vs)"
  by (simp add: st_step setSearchText_def setFilters_def handlers_DetectiveInTheField handlers_DetectiveInTheFieldClass
        handlers_Counter handlers_CounterWithSideEffects handlers_Toggle
        click_state_DetectiveInTheField click_state_DetectiveInTheFieldClass
        click_state_Counter click_state_CounterWithSideEffects click_state_Toggle
        set_to_def set_by_def setCount_def
      split: event.splits)


section \<open>The timer of \<open>CounterWithSideEffects\<close>\<close>

lemma init_state_CounterWithSideEffects: "init_state CounterWithSideEffects u = Num 0"
  by (simp add: CounterWithSideEffects_def)

lemma effects_CounterWithSideEffects:
  "effects CounterWithSideEffects u c =
     [\<lparr>eff_deps = NoDeps,
       eff_body = (\<lambda>h. (h\<lparr>document_title := [SubstNum c, Lit '' clicks'']\<rparr>, None))\<rparr>,
      \<lparr>eff_deps = NoDeps,
       eff_body = (\<lambda>h. let (timerId, h') = setTimeout ''Some useful message'' 5000 h
                       in (h', Some (ClearTimeout timerId)))\<rparr>,
      \<lparr>eff_deps = NoDeps,
       eff_body = (\<lambda>h. (console_log ''Runs on each render'' h, None))\<rparr>,
      \<lparr>eff_deps = Deps [],
       eff_body = (\<lambda>h. (console_log ''Runs only on the first render'' h, None))\<rparr>,
      \<lparr>eff_deps = Deps [c],
       eff_body = (\<lambda>h. (console_log ''Runs only when count changes'' h, None))\<rparr>]"
  by (simp add: CounterWithSideEffects_def)

lemma mount_CounterWithSideEffects:
  "mount CounterWithSideEffects u h =
     \<lparr>st = Num 0,
      hooks = timer_hooks (next_timer h) (Num 0),
      hst = h\<lparr>document_title := [SubstNum (Num 0), Lit '' clicks''],
              timers := timers h @ [(next_timer h, ''Some useful message'')],
              next_timer := Suc (next_timer h),
              console := console h @ [''Runs on each render'', ''Runs only on the first render'',
                                      ''Runs only when count changes'']\<rparr>\<rparr>"
  by (simp add: mount_def effects_CounterWithSideEffects init_state_CounterWithSideEffects
        timer_hooks_def Let_def setTimeout_def console_log_def)

lemma step_Click_CounterWithSideEffects:
  "step CounterWithSideEffects u i Click =
     (let s = js_add (st i) 1;
          (h', ks) = update_effects (effects CounterWithSideEffects u s) (hooks i) (hst i)
      in \<lparr>st = s, hooks = ks, hst = h'\<rparr>)"
  by (simp add: handlers_CounterWithSideEffects set_to_def)

lemma one_timer_mount:
  "timers h = [] \<Longrightarrow> one_timer (mount CounterWithSideEffects u h)"
  by (simp add: mount_CounterWithSideEffects one_timer_def) blast

text \<open>A re-render clears the timer that is registered and sets a new one.\<close>

lemma update_effects_CounterWithSideEffects:
  "timers h = [] \<or> timers h = [(t, ''Some useful message'')] \<Longrightarrow>
   \<exists>ks h'. update_effects (effects CounterWithSideEffects u c') (timer_hooks t c) h = (h', ks)
     \<and> ks = timer_hooks (next_timer h) c'
     \<and> timers h' = [(next_timer h, ''Some useful message'')]"
  by (auto simp: update_effects_def effects_CounterWithSideEffects timer_hooks_def Let_def
        setTimeout_def console_log_def clearTimeout_def)

lemma one_timer_step:
  assumes "one_timer i"
  shows "one_timer (step CounterWithSideEffects u i e)"
proof (cases e)
  case Click
  from assms obtain t c where h: "hooks i = timer_hooks t c"
    and tm: "timers (hst i) = [] \<or> timers (hst i) = [(t, ''Some useful message'')]"
    by (auto simp: one_timer_def)
  from update_effects_CounterWithSideEffects [OF tm, of u "js_add (st i) 1" c]
  obtain ks h' where
    "update_effects (effects CounterWithSideEffects u (js_add (st i) 1))
       (timer_hooks t c) (hst i) = (h', ks)"
    "ks = timer_hooks (next_timer (hst i)) (js_add (st i) 1)"
    "timers h' = [(next_timer (hst i), ''Some useful message'')]"
    by blast
  with Click h show ?thesis
    by (auto simp: one_timer_def step_Click_CounterWithSideEffects Let_def
          simp del: step.simps)
next
  case (TimerFires x)
  from assms obtain t c where h: "hooks i = timer_hooks t c"
    and tm: "timers (hst i) = [] \<or> timers (hst i) = [(t, ''Some useful message'')]"
    by (auto simp: one_timer_def)
  from tm have "timers (fire_timer x (hst i)) = []
      \<or> timers (fire_timer x (hst i)) = [(t, ''Some useful message'')]"
    by (cases "x = t") (auto simp: fire_timer_def console_log_def clearTimeout_def)
  with TimerFires h have "hooks (step CounterWithSideEffects u i e) = timer_hooks t c
      \<and> (timers (hst (step CounterWithSideEffects u i e)) = []
         \<or> timers (hst (step CounterWithSideEffects u i e)) = [(t, ''Some useful message'')])"
    by simp
  then show ?thesis
    unfolding one_timer_def by blast
qed

lemma one_timer_run:
  "one_timer i \<Longrightarrow> one_timer (run CounterWithSideEffects u evs i)"
  unfolding run_def
  by (induction evs arbitrary: i) (simp_all add: one_timer_step del: step.simps)

lemma one_timer_pending: "one_timer i \<Longrightarrow> length (timers (hst i)) \<le> 1"
  by (auto simp: one_timer_def)

lemma one_timer_unmount: "one_timer i \<Longrightarrow> timers (unmount i) = []"
  by (auto simp: one_timer_def unmount_def timer_hooks_def clearTimeout_def)

text \<open>
  C7. \<open>CounterWithSideEffects\<close> is the one component that acquires a resource: an effect
  sets a timer, and the cleanup the effect returns clears it before the effect runs
  again and when the component is unmounted. Mounted on a host with no pending timer,
  it has at most one timer pending after any clicks and timer firings, and none after
  it is unmounted. No other component with state registers an effect.
\<close>

theorem only_one_timer_and_released:
  assumes "timers h = []"
  shows "length (timers (hst (run CounterWithSideEffects () evs
                                (mount CounterWithSideEffects () h)))) \<le> 1
    \<and> timers (unmount (run CounterWithSideEffects () evs
                         (mount CounterWithSideEffects () h))) = []
    \<and> effects DetectiveInTheField p c = []
    \<and> effects DetectiveInTheFieldClass p s = []
    \<and> effects Counter () cs = []
    \<and> effects Toggle () b = []
    \<and> effects SlaListPage () ls = []"
proof -
  have inv: "one_timer (run CounterWithSideEffects () evs (mount CounterWithSideEffects () h))"
    by (rule one_timer_run [OF one_timer_mount [OF assms]])
  show ?thesis
    using one_timer_pending [OF inv] one_timer_unmount [OF inv]
    by (simp add: effects_without_side_effects)
qed

text \<open>
  A click, the firing of the timer the click set, and another click: the timer of the
  last render is pending, and unmounting clears it.
\<close>

theorem only_one_timer_and_released_witness:
  "timers \<lparr>document_title = [], console = [], timers = [], next_timer = 0\<rparr> = []
   \<and> timers (hst (run CounterWithSideEffects () [Click, TimerFires 1, Click]
        (mount CounterWithSideEffects ()
           \<lparr>document_title = [], console = [], timers = [], next_timer = 0\<rparr>)))
       = [(2, ''Some useful message'')]
   \<and> timers (unmount (run CounterWithSideEffects () [Click, TimerFires 1, Click]
        (mount CounterWithSideEffects ()
           \<lparr>document_title = [], console = [], timers = [], next_timer = 0\<rparr>))) = []"
proof -
  have e: "timers \<lparr>document_title = [], console = [], timers = [], next_timer = 0\<rparr> = []"
    by simp
  have r: "timers (hst (run CounterWithSideEffects () [Click, TimerFires 1, Click]
        (mount CounterWithSideEffects ()
           \<lparr>document_title = [], console = [], timers = [], next_timer = 0\<rparr>)))
       = [(2, ''Some useful message'')]"
    by (simp add: run_def mount_CounterWithSideEffects timer_hooks_def
          step_Click_CounterWithSideEffects
          effects_CounterWithSideEffects update_effects_def Let_def setTimeout_def
          console_log_def clearTimeout_def fire_timer_def del: step.simps(1) js_add.simps)
  from only_one_timer_and_released [OF e, of "[Click, TimerFires 1, Click]"] e r
  show ?thesis by simp
qed

text \<open>Mounting \<open>CounterWithSideEffects\<close> leaves a timer pending and its cleanup registered.\<close>

theorem timer_acquired_counterexample:
  "timers (hst (mount CounterWithSideEffects ()
      \<lparr>document_title = [], console = [], timers = [], next_timer = 0\<rparr>))
     = [(0, ''Some useful message'')]
   \<and> hooks (mount CounterWithSideEffects ()
      \<lparr>document_title = [], console = [], timers = [], next_timer = 0\<rparr>) ! 1
     = (NoDeps, Some (ClearTimeout 0))"
  by (simp add: mount_CounterWithSideEffects timer_hooks_def)


section \<open>The top level of the modules\<close>

text \<open>
  C2. For every host document that has a node with the id \<open>root\<close>, evaluating the top
  level of index.tsx and of the terminology guide finds that node and attaches the
  element tree to it without an error.
\<close>

theorem top_level_mounts_on_root:
  assumes "getElementById doc ''root'' = Some node"
  shows "index_top_level Sherlock doc = Inr (node, Sherlock ())
    \<and> part_000_top_level doc =
        Inr (node, Host ''h1'' [(''id'', ALit ''title'')] [] [Text [Lit ''Hello, World!'']])"
  using assms
  by (simp add: index_top_level_def part_000_top_level_def reactDomRender_def instantiate_def)

text \<open>A document whose only node is \<open><div id="root">\<close>.\<close>

theorem top_level_mounts_on_root_witness:
  "getElementById [\<lparr>node_tag = ''div'', node_id = ''root''\<rparr>] ''root''
     = Some \<lparr>node_tag = ''div'', node_id = ''root''\<rparr>
   \<and> index_top_level Sherlock [\<lparr>node_tag = ''div'', node_id = ''root''\<rparr>]
     = (Inr (\<lparr>node_tag = ''div'', node_id = ''root''\<rparr>, Sherlock ())
          :: error + dom_node \<times> unit element)
   \<and> part_000_top_level [\<lparr>node_tag = ''div'', node_id = ''root''\<rparr>]
     = (Inr (\<lparr>node_tag = ''div'', node_id = ''root''\<rparr>,
             Host ''h1'' [(''id'', ALit ''title'')] [] [Text [Lit ''Hello, World!'']])
          :: error + dom_node \<times> unit element)"
proof -
  have root: "getElementById [\<lparr>node_tag = ''div'', node_id = ''root''\<rparr>] ''root''
     = Some \<lparr>node_tag = ''div'', node_id = ''root''\<rparr>"
    by (simp add: getElementById_def)
  show ?thesis
    using root top_level_mounts_on_root [OF root] by simp
qed

text \<open>
  In a document with no node of the id \<open>root\<close> (here the empty document) the container
  is \<open>null\<close>, and both top levels end in the renderer's error.
\<close>

theorem top_level_without_root_counterexample:
  "index_top_level Sherlock []
     = (Inl TargetContainerIsNotADOMElement :: error + dom_node \<times> unit element)
   \<and> part_000_top_level []
     = (Inl TargetContainerIsNotADOMElement :: error + dom_node \<times> unit element)"
  by (simp add: index_top_level_def part_000_top_level_def getElementById_def
        reactDomRender_def)


section \<open>What a file renders when the other files are replaced\<close>











section \<open>Which literal fragments a component renders\<close>

lemma skeleton_Detective:
  "skeleton (Detective p) =
     Host ''div'' [] []
       [Text [Lit ''I'm '', Subst [], Lit ''. I've solved '', Subst [], Lit '' cases.'']]"
  by (simp add: Detective_def Let_def hole_attrs_def hole_handlers_def)

lemma skeleton_DetectiveInTheField:
  "skeleton (render DetectiveInTheField p c) =
     Fragment
       [Host ''div'' [] []
          [Text [Lit ''I'm '', Subst [], Lit ''.''],
           Host ''br'' [] [] [],
           Text (if js_gt c 0
                 then [Lit ''I've solved '', Subst [], Lit '' '',
                       Lit (if js_gt c 1 then ''cases'' else ''case''), Lit ''.'']
                 else [Lit ''I'm a detective in the making.''])],
        Host ''br'' [] [] [],
        Host ''button'' [] [(''onClick'', ())] [Text [Lit ''Solve this case'']]]"
  by (simp add: DetectiveInTheField_def Let_def hole_attrs_def hole_handlers_def)

lemma skeleton_DetectiveInTheFieldClass:
  "skeleton (render DetectiveInTheFieldClass p s) =
     skeleton (render DetectiveInTheField p (IState.casesSolved s))"
  by (simp add: DetectiveInTheField_def DetectiveInTheFieldClass_def Let_def hole_attrs_def
        hole_handlers_def)

lemma js_gt_1_0: "js_gt c 1 \<Longrightarrow> js_gt c 0"
  by (cases c) simp_all

lemma skeleton_DetectiveInTheField_eq:
  "(skeleton (render DetectiveInTheField p c) = skeleton (render DetectiveInTheField p' c'))
     = (js_gt c 0 = js_gt c' 0 \<and> js_gt c 1 = js_gt c' 1)"
  using js_gt_1_0 [of c] js_gt_1_0 [of c']
  by (auto simp: skeleton_DetectiveInTheField)

lemma skeleton_Counter:
  "skeleton (render Counter u s) =
     Fragment [Host ''div'' [] [] [Text [Subst []]],
               Host ''button'' [] [(''onClick'', ())] [Text [Lit ''Increment'']]]"
  by (simp add: Counter_def Let_def hole_attrs_def hole_handlers_def)

lemma skeleton_CounterWithSideEffects:
  "skeleton (render CounterWithSideEffects u c) =
     Fragment [Host ''div'' [] [] [Text [Subst []]],
               Host ''button'' [] [(''onClick'', ())] [Text [Lit ''Increment'']]]"
  by (simp add: CounterWithSideEffects_def Let_def hole_attrs_def hole_handlers_def)

lemma skeleton_Toggle:
  "skeleton (render Toggle u s) =
     Host ''div'' [(''style.color'', ALit (if js_truthy s then ''red'' else ''black''))]
       [(''onClick'', ())] [Text [Lit ''Click to change the color'']]"
  by (simp add: Toggle_def useToggleState_def Let_def hole_attrs_def hole_handlers_def)

text \<open>
  What \<open>SlaListPage\<close> returns: the error for the first of its two undeclared names that
  the host does not define, and the description when the host defines both.
\<close>

lemma render_SlaListPage:
  "render SlaListPage u s g =
     (if ''SlaFilters'' \<notin> set g then Inl (ReferenceError ''SlaFilters'')
      else if ''SlaTable'' \<notin> set g then Inl (ReferenceError ''SlaTable'')
      else Inr (Fragment
             [Comp ''SlaPageTitle'' [] [],
              Comp ''SlaActionBar'' [(''searchText'', AStr (searchText s))]
                [(''setSearchText'', StringUpdater setSearchText)],
              Comp ''SlaFilters'' [(''filters'', AStrs (filters s))]
                [(''setFilters'', ListUpdater setFilters)],
              Comp ''SlaTable''
                [(''searchText'', AStr (searchText s)), (''filters'', AStrs (filters s))] []]))"
  by (simp add: SlaListPage_def evaluate_jsx_def Let_def)

lemma skeleton_SlaListPage:
  "map_sum id skeleton (render SlaListPage u s g) =
   map_sum id skeleton (render SlaListPage u' s' g)"
  by (simp add: render_SlaListPage hole_attrs_def hole_handlers_def)

lemma skeleton_PageTitle:
  "skeleton (PageTitle p) =
     Host ''div'' [(''style.fontSize'', ALit ''40px''), (''style.color'', ALit ''teal'')] []
       [ObjectChild [(''title'', AStr [])]]"
  by (simp add: PageTitle_def Let_def hole_attrs_def hole_handlers_def)

text \<open>
  C3. The components that take props or state render the same literal skeleton for
  every value of them (only substituted values vary), with three exceptions that select
  a fragment by a condition on the state: \<open>DetectiveInTheField\<close> and
  \<open>DetectiveInTheFieldClass\<close> choose the message by \<open>casesSolved > 0\<close> and the noun by
  \<open>casesSolved > 1\<close>, and \<open>Toggle\<close> chooses the colour by its state. (\<open>Sherlock\<close>,
  \<open>DetectivesList\<close>, \<open>SlaPageTitle\<close> and \<open>SlaActionBar\<close> take neither props nor state;
  \<open>SlaListPage\<close> has the same outcome for every state, in any one host.)
\<close>

theorem literal_skeleton_of_every_component:
  "skeleton (Detective dp :: unit element) = skeleton (Detective dp' :: unit element)
   \<and> skeleton (render Counter () cs) = skeleton (render Counter () cs')
   \<and> skeleton (render CounterWithSideEffects () n) = skeleton (render CounterWithSideEffects () n')
   \<and> map_sum id skeleton (render SlaListPage () ls g)
       = map_sum id skeleton (render SlaListPage () ls' g)
   \<and> skeleton (PageTitle tp :: unit element) = skeleton (PageTitle tp' :: unit element)
   \<and> (skeleton (render DetectiveInTheField p c) = skeleton (render DetectiveInTheField p' c'))
       = (js_gt c 0 = js_gt c' 0 \<and> js_gt c 1 = js_gt c' 1)
   \<and> (skeleton (render DetectiveInTheFieldClass p s) = skeleton (render DetectiveInTheFieldClass p' s'))
       = (js_gt (IState.casesSolved s) 0 = js_gt (IState.casesSolved s') 0
          \<and> js_gt (IState.casesSolved s) 1 = js_gt (IState.casesSolved s') 1)
   \<and> (skeleton (render Toggle () b) = skeleton (render Toggle () b'))
       = (js_truthy b = js_truthy b')"
  by (simp add: skeleton_Detective skeleton_Counter skeleton_CounterWithSideEffects
        skeleton_SlaListPage skeleton_PageTitle skeleton_DetectiveInTheField_eq
        skeleton_DetectiveInTheFieldClass skeleton_Toggle)

text \<open>
  Two detectives have one skeleton, 2 and 5 solved cases have one skeleton, and the two
  states of \<open>Toggle\<close> have different ones.
\<close>

theorem literal_skeleton_of_every_component_witness:
  "skeleton (Detective \<lparr>IProps_02.name = ''Sherlock Holmes'', IProps_02.casesSolved = Num 27\<rparr>
              :: unit element)
     = skeleton (Detective \<lparr>IProps_02.name = ''CID Daya'', IProps_02.casesSolved = Num 0\<rparr>
              :: unit element)
   \<and> skeleton (render DetectiveInTheField
                 \<lparr>IProps_03.name = ''Sherlock'', casesSolvedSoFar = Undefined\<rparr> (Num 2))
     = skeleton (render DetectiveInTheField
                 \<lparr>IProps_03.name = ''Daya'', casesSolvedSoFar = Num 1\<rparr> (Num 5))
   \<and> skeleton (render Toggle () (Some True)) \<noteq> skeleton (render Toggle () (Some False))"
  using literal_skeleton_of_every_component
    [where dp = "\<lparr>IProps_02.name = ''Sherlock Holmes'', IProps_02.casesSolved = Num 27\<rparr>"
       and dp' = "\<lparr>IProps_02.name = ''CID Daya'', IProps_02.casesSolved = Num 0\<rparr>"
       and cs = "\<lparr>count = Num 0, searchKey = [], filter_key = []\<rparr>"
       and cs' = "\<lparr>count = Num 1, searchKey = [], filter_key = []\<rparr>"
       and n = "Num 0" and n' = "Num 1"
       and ls = "\<lparr>searchText = [], filters = []\<rparr>"
       and ls' = "\<lparr>searchText = ''abc'', filters = []\<rparr>"
       and g = "[]"
       and tp = "\<lparr>title = ''a''\<rparr>" and tp' = "\<lparr>title = ''b''\<rparr>"
       and p = "\<lparr>IProps_03.name = ''Sherlock'', casesSolvedSoFar = Undefined\<rparr>"
       and c = "Num 2"
       and p' = "\<lparr>IProps_03.name = ''Daya'', casesSolvedSoFar = Num 1\<rparr>"
       and c' = "Num 5"
       and s = "\<lparr>IState.casesSolved = Num 2\<rparr>"
       and s' = "\<lparr>IState.casesSolved = Num 5\<rparr>"
       and b = "Some True" and b' = "Some False"]
  by (simp add: js_truthy_def)

text \<open>
  With no solved case \<open>DetectiveInTheField\<close> renders one literal message, with one
  solved case another: the fragment is selected by the state.
\<close>

theorem conditional_rendering_counterexample:
  "skeleton (render DetectiveInTheField
               \<lparr>IProps_03.name = ''Sherlock'', casesSolvedSoFar = Undefined\<rparr> (Num 0))
   \<noteq> skeleton (render DetectiveInTheField
               \<lparr>IProps_03.name = ''Sherlock'', casesSolvedSoFar = Undefined\<rparr> (Num 1))"
  by (simp add: skeleton_DetectiveInTheField)


section \<open>What a component's result depends on\<close>






end
